theory Spec2Isabelle
  imports Main
begin

section \<open>Python values\<close>

text \<open>
  Both scripts work on what \<^verbatim>\<open>response.json()\<close> and \<^verbatim>\<open>json.load\<close> return: nested
  Python values built from \<^verbatim>\<open>None\<close>, booleans, integers, strings, lists and dictionaries
  with string keys. A dictionary is an association list in insertion order, read with
  \<open>map_of\<close>; its keys are distinct in every value Python builds. A string is its UTF-8
  encoding, one \<open>char\<close> per byte. Numbers with a fraction are not modelled.
\<close>

datatype json =
    JNull
  | JBool bool
  | JInt int
  | JStr string
  | JList "json list"
  | JObj "(string \<times> json) list"

text \<open>The exceptions that the modelled code can raise and does not catch.\<close>

datatype error =
    AttributeError | TypeError | KeyError | IndexError | EOFError
  | OSError | UnicodeDecodeError | RecursionError

text \<open>Truth value of an object, as \<^verbatim>\<open>if x\<close>, \<^verbatim>\<open>not x\<close> and \<^verbatim>\<open>x or y\<close> test it.\<close>

fun truthy :: "json \<Rightarrow> bool" where
  "truthy JNull = False"
| "truthy (JBool b) = b"
| "truthy (JInt n) = (n \<noteq> 0)"
| "truthy (JStr s) = (s \<noteq> [])"
| "truthy (JList xs) = (xs \<noteq> [])"
| "truthy (JObj kvs) = (kvs \<noteq> [])"

text \<open>\<^verbatim>\<open>x or y\<close>\<close>

definition py_or :: "json \<Rightarrow> json \<Rightarrow> json" where
  "py_or x y = (if truthy x then x else y)"

text \<open>\<^verbatim>\<open>obj.get(key, default)\<close>: only a dictionary has the method.\<close>

fun dict_get :: "json \<Rightarrow> string \<Rightarrow> json \<Rightarrow> error + json" where
  "dict_get (JObj kvs) k d = Inr (case map_of kvs k of None \<Rightarrow> d | Some v \<Rightarrow> v)"
| "dict_get _ k d = Inl AttributeError"

subsection \<open>Strings\<close>

text \<open>A byte \<open>10xxxxxx\<close> continues a UTF-8 sequence; every other byte starts a character.\<close>

definition is_continuation :: "char \<Rightarrow> bool" where
  "is_continuation c = (128 \<le> (of_char c :: nat) \<and> (of_char c :: nat) < 192)"

text \<open>The characters of a string, each as a string of its own.\<close>

function code_points :: "string \<Rightarrow> string list" where
  "code_points [] = []"
| "code_points (c # cs) =
     (c # takeWhile is_continuation cs) # code_points (dropWhile is_continuation cs)"
  by pat_completeness auto
termination
  by (relation "measure length") (auto simp: length_dropWhile_le less_Suc_eq_le)

definition digit_char :: "nat \<Rightarrow> char" where
  "digit_char d = char_of (48 + d)"

function nat_str :: "nat \<Rightarrow> string" where
  "nat_str n = (if n < 10 then [digit_char n] else nat_str (n div 10) @ [digit_char (n mod 10)])"
  by pat_completeness auto
termination
  by (relation "measure id") auto

declare nat_str.simps [simp del]

definition int_str :: "int \<Rightarrow> string" where
  "int_str i = (if i < 0 then CHR ''-'' # nat_str (nat (- i)) else nat_str (nat i))"

definition hex_char :: "nat \<Rightarrow> char" where
  "hex_char d = (if d < 10 then char_of (48 + d) else char_of (87 + d))"

text \<open>
  \<^verbatim>\<open>repr\<close> of a string: single quotes, unless the string holds a single quote and no
  double quote; the quote in use and the backslash are escaped, control characters are
  written \<^verbatim>\<open>\t\<close>, \<^verbatim>\<open>\n\<close>, \<^verbatim>\<open>\r\<close> or \<^verbatim>\<open>\xNN\<close>. Bytes of characters beyond ASCII are
  kept, which is what Python does for the printable ones.
\<close>

definition repr_char :: "char \<Rightarrow> char \<Rightarrow> string" where
  "repr_char q c =
     (if c = q \<or> c = CHR 0x5C then [CHR 0x5C, c]
      else if c = CHR 0x09 then [CHR 0x5C, CHR ''t'']
      else if c = CHR 0x0A then [CHR 0x5C, CHR ''n'']
      else if c = CHR 0x0D then [CHR 0x5C, CHR ''r'']
      else if (of_char c :: nat) < 32 \<or> (of_char c :: nat) = 127
        then [CHR 0x5C, CHR ''x'', hex_char (of_char c div 16), hex_char (of_char c mod 16)]
      else [c])"

definition repr_str :: "string \<Rightarrow> string" where
  "repr_str s =
     (let q = (if CHR 0x27 \<in> set s \<and> CHR 0x22 \<notin> set s then CHR 0x22 else CHR 0x27)
      in [q] @ concat (map (repr_char q) s) @ [q])"

text \<open>\<^verbatim>\<open>sep.join(parts)\<close> on strings.\<close>

fun join :: "string \<Rightarrow> string list \<Rightarrow> string" where
  "join sep [] = []"
| "join sep [x] = x"
| "join sep (x # y # ys) = x @ sep @ join sep (y # ys)"

primrec py_repr :: "json \<Rightarrow> string" where
  "py_repr JNull = ''None''"
| "py_repr (JBool b) = (if b then ''True'' else ''False'')"
| "py_repr (JInt i) = int_str i"
| "py_repr (JStr s) = repr_str s"
| "py_repr (JList xs) = ''['' @ join '', '' (map py_repr xs) @ '']''"
| "py_repr (JObj kvs) =
     ''{'' @ join '', '' (map (\<lambda>(k, r). repr_str k @ '': '' @ r) (map (map_prod id py_repr) kvs))
       @ ''}''"

text \<open>What an f-string puts in place of \<^verbatim>\<open>{x}\<close>: \<^verbatim>\<open>str(x)\<close>.\<close>

definition py_str :: "json \<Rightarrow> string" where
  "py_str v = (case v of JStr s \<Rightarrow> s | _ \<Rightarrow> py_repr v)"

text \<open>
  \<^verbatim>\<open>sep.join(xs)\<close> on a list of objects: every item has to be a string.
\<close>

fun strings_of :: "json list \<Rightarrow> error + string list" where
  "strings_of [] = Inr []"
| "strings_of (JStr s # vs) =
     (case strings_of vs of Inl e \<Rightarrow> Inl e | Inr ss \<Rightarrow> Inr (s # ss))"
| "strings_of (_ # vs) = Inl TypeError"

definition py_join :: "string \<Rightarrow> json list \<Rightarrow> error + string" where
  "py_join sep vs = (case strings_of vs of Inl e \<Rightarrow> Inl e | Inr ss \<Rightarrow> Inr (join sep ss))"

text \<open>
  The items a \<^verbatim>\<open>for\<close> loop takes from an object: the elements of a list, the characters
  of a string, the keys of a dictionary; nothing else here is iterable.
\<close>

fun py_iter :: "json \<Rightarrow> error + json list" where
  "py_iter (JList xs) = Inr xs"
| "py_iter (JStr s) = Inr (map JStr (code_points s))"
| "py_iter (JObj kvs) = Inr (map (JStr \<circ> fst) kvs)"
| "py_iter _ = Inl TypeError"

section \<open>Formatting a game record\<close>

text \<open>
  The platform names of a record, in both scripts:
  \<^verbatim>\<open>[p.get("platform", {}).get("name", "") for p in platforms_list if p.get("platform")]\<close>
\<close>

fun platform_names :: "json list \<Rightarrow> error + json list" where
  "platform_names [] = Inr []"
| "platform_names (p # ps) =
     (case dict_get p ''platform'' JNull of
        Inl e \<Rightarrow> Inl e
      | Inr c \<Rightarrow>
          if truthy c then
            (case dict_get p ''platform'' (JObj []) of
               Inl e \<Rightarrow> Inl e
             | Inr pl \<Rightarrow>
                 (case dict_get pl ''name'' (JStr []) of
                    Inl e \<Rightarrow> Inl e
                  | Inr n \<Rightarrow>
                      (case platform_names ps of Inl e \<Rightarrow> Inl e | Inr ns \<Rightarrow> Inr (n # ns))))
          else platform_names ps)"

text \<open>
  \<^verbatim>\<open>platforms_list = game.get("platforms") or []\<close>, then the joined names:
  \<^verbatim>\<open>platforms = ", ".join([...])\<close>
\<close>

definition platforms_of :: "json \<Rightarrow> error + string" where
  "platforms_of game =
     (case dict_get game ''platforms'' JNull of
        Inl e \<Rightarrow> Inl e
      | Inr pv \<Rightarrow>
          (case py_iter (py_or pv (JList [])) of
             Inl e \<Rightarrow> Inl e
           | Inr ps \<Rightarrow>
               (case platform_names ps of
                  Inl e \<Rightarrow> Inl e
                | Inr ns \<Rightarrow> py_join '', '' ns)))"

section \<open>Variant A: one embed, one field per game (games_to_discord.py)\<close>

text \<open>
  The literals of this script that are not ASCII, byte by byte as the file has them.
\<close>

definition pad_A :: string where
  "pad_A = [CHR 0xC3, CHR 0xB0, CHR 0xC5, CHR 0xB8, CHR 0xC5, CHR 0xBD, CHR 0xC2, CHR 0xAE]"

definition calendar_A :: string where
  "calendar_A =
     [CHR 0xC3, CHR 0xB0, CHR 0xC5, CHR 0xB8, CHR 0xE2, CHR 0x80, CHR 0x9C, CHR 0xE2, CHR 0x80, CHR 0xA6]"

definition bullet_A :: string where
  "bullet_A = [CHR 0xC3, CHR 0xA2, CHR 0xE2, CHR 0x82, CHR 0xAC, CHR 0xC2, CHR 0xA2]"

text \<open>The body of the loop over the games: the field of one game.\<close>

definition game_field :: "json \<Rightarrow> error + json" where
  "game_field game =
     (case dict_get game ''name'' (JStr ''Unknown Title'') of
        Inl e \<Rightarrow> Inl e
      | Inr name \<Rightarrow>
          (case dict_get game ''released'' (JStr ''TBA'') of
             Inl e \<Rightarrow> Inl e
           | Inr release_date \<Rightarrow>
               (case platforms_of game of
                  Inl e \<Rightarrow> Inl e
                | Inr platforms \<Rightarrow>
                    Inr (JObj
                      [(''name'', JStr (''**'' @ py_str name @ ''**'')),
                       (''value'', JStr
                          (calendar_A @ '' Release Date: **'' @ py_str release_date @ ''**''
                             @ [CHR 0x0A]
                             @ (if platforms \<noteq> [] then pad_A @ '' Platforms: '' @ platforms
                                else [])))]))))"

text \<open>
  \<^verbatim>\<open>for game in games: ... embed["fields"].append(field)\<close>; the first exception ends
  the loop.
\<close>

fun add_fields :: "json list \<Rightarrow> json list \<Rightarrow> error + json list" where
  "add_fields fields [] = Inr fields"
| "add_fields fields (game # games) =
     (case game_field game of
        Inl e \<Rightarrow> Inl e
      | Inr field \<Rightarrow> add_fields (fields @ [field]) games)"

text \<open>
  \<open>current_time\<close> is the clock reading
  \<^verbatim>\<open>datetime.datetime.now().strftime("%Y-%m-%d %H:%M:%S")\<close>. The argument \<open>games\<close> is
  the object the caller passes, a list of records when the catalog answers as
  documented.
\<close>

definition format_discord_message_A :: "string \<Rightarrow> json \<Rightarrow> error + json" where
  "format_discord_message_A current_time games =
     (if \<not> truthy games then Inr (JObj [(''content'', JStr ''No upcoming games found!'')])
      else
        (case py_iter games of
           Inl e \<Rightarrow> Inl e
         | Inr gs \<Rightarrow>
        (case add_fields [] gs of
           Inl e \<Rightarrow> Inl e
         | Inr fields \<Rightarrow>
             Inr (JObj [(''embeds'', JList [JObj
               [(''title'', JStr (pad_A @ '' Upcoming Game Releases '' @ pad_A)),
                (''color'', JInt 0x7289DA),
                (''description'', JStr ''Here are the upcoming game releases:''),
                (''fields'', JList fields),
                (''footer'', JObj
                   [(''text'', JStr (''Data from RAWG.io '' @ bullet_A @ '' Generated on ''
                                      @ current_time))])]])]))))"

section \<open>Variant B: one embed per game (games_to_discord_screenshot.py)\<close>

definition pad_B :: string where
  "pad_B = [CHR 0xF0, CHR 0x9F, CHR 0x8E, CHR 0xAE]"

definition calendar_B :: string where
  "calendar_B = [CHR 0xF0, CHR 0x9F, CHR 0x93, CHR 0x85]"

definition bullet_B :: string where
  "bullet_B = [CHR 0xE2, CHR 0x80, CHR 0xA2]"

text \<open>
  The screenshot mapping is a Python dictionary whose keys are whatever the records have
  as \<^verbatim>\<open>id\<close>. Lists and dictionaries cannot be keys; \<^verbatim>\<open>True\<close> and \<^verbatim>\<open>1\<close> are the same
  key, and so are \<^verbatim>\<open>False\<close> and \<^verbatim>\<open>0\<close>.
\<close>

type_synonym pydict = "(json \<times> json) list"

fun hashable :: "json \<Rightarrow> bool" where
  "hashable (JList xs) = False"
| "hashable (JObj kvs) = False"
| "hashable _ = True"

fun key_of :: "json \<Rightarrow> json" where
  "key_of (JBool b) = JInt (if b then 1 else 0)"
| "key_of v = v"

definition pydict_lookup :: "pydict \<Rightarrow> json \<Rightarrow> json option" where
  "pydict_lookup d k = map_of (map (\<lambda>(k', v). (key_of k', v)) d) (key_of k)"

text \<open>
  \<^verbatim>\<open>game_id in screenshots and screenshots[game_id]\<close>: the value when the test holds.
\<close>

definition screenshot_for :: "pydict \<Rightarrow> json \<Rightarrow> error + json option" where
  "screenshot_for screenshots game_id =
     (if \<not> hashable game_id then Inl TypeError
      else (case pydict_lookup screenshots game_id of
              None \<Rightarrow> Inr None
            | Some url \<Rightarrow> Inr (if truthy url then Some url else None)))"

text \<open>The body of the loop over \<^verbatim>\<open>games[:9]\<close>: the embed of one game.\<close>

definition game_embed :: "pydict \<Rightarrow> json \<Rightarrow> error + json" where
  "game_embed screenshots game =
     (case dict_get game ''id'' JNull of
        Inl e \<Rightarrow> Inl e
      | Inr game_id \<Rightarrow>
     (case dict_get game ''name'' (JStr ''Unknown Title'') of
        Inl e \<Rightarrow> Inl e
      | Inr name \<Rightarrow>
     (case dict_get game ''released'' (JStr ''TBA'') of
        Inl e \<Rightarrow> Inl e
      | Inr release_date \<Rightarrow>
     (case platforms_of game of
        Inl e \<Rightarrow> Inl e
      | Inr platforms \<Rightarrow>
     (case screenshot_for screenshots game_id of
        Inl e \<Rightarrow> Inl e
      | Inr shot \<Rightarrow>
          Inr (JObj
            [(''title'', name),
             (''color'', JInt 0x3498DB),
             (''fields'', JList
                ([JObj [(''name'', JStr ''Release Date''),
                        (''value'', JStr (calendar_B @ '' **'' @ py_str release_date @ ''**'')),
                        (''inline'', JBool True)]]
                 @ (if platforms \<noteq> []
                    then [JObj [(''name'', JStr ''Platforms''),
                                (''value'', JStr (pad_B @ '' '' @ platforms)),
                                (''inline'', JBool True)]]
                    else []))),
             (case shot of
                Some url \<Rightarrow> (''image'', JObj [(''url'', url)])
              | None \<Rightarrow>
                  (''footer'',
                   JObj [(''text'', JStr ''No screenshot available for this game'')]))]))))))"

fun add_embeds :: "pydict \<Rightarrow> json list \<Rightarrow> json list \<Rightarrow> error + json list" where
  "add_embeds screenshots embeds [] = Inr embeds"
| "add_embeds screenshots embeds (game # games) =
     (case game_embed screenshots game of
        Inl e \<Rightarrow> Inl e
      | Inr ge \<Rightarrow> add_embeds screenshots (embeds @ [ge]) games)"

text \<open>The header embed, before and after \<^verbatim>\<open>embeds[0]["footer"] = ...\<close>.\<close>

definition main_embed :: json where
  "main_embed = JObj
     [(''title'', JStr (pad_B @ '' Upcoming Game Releases '' @ pad_B)),
      (''color'', JInt 0x7289DA),
      (''description'', JStr ''Here are the upcoming game releases with screenshots:'')]"

text \<open>\<^verbatim>\<open>d[key] = value\<close> on a dictionary with string keys.\<close>

definition dict_set :: "(string \<times> json) list \<Rightarrow> string \<Rightarrow> json \<Rightarrow> (string \<times> json) list" where
  "dict_set kvs k v =
     (if k \<in> fst ` set kvs then map (\<lambda>(k', v'). if k' = k then (k', v) else (k', v')) kvs
      else kvs @ [(k, v)])"

fun set_footer :: "string \<Rightarrow> json \<Rightarrow> error + json" where
  "set_footer current_time (JObj kvs) =
     Inr (JObj (dict_set kvs ''footer''
       (JObj [(''text'', JStr (''Data from RAWG.io '' @ bullet_B @ '' Generated on ''
                                @ current_time))])))"
| "set_footer current_time _ = Inl TypeError"

text \<open>
  \<^verbatim>\<open>games[:9]\<close>, as the loop reads it: the first nine elements of a list, the first nine
  characters of a string. A dictionary cannot be sliced (TypeError up to Python 3.11,
  KeyError from 3.12 on), other objects cannot be subscripted.
\<close>

fun first_nine :: "json \<Rightarrow> error + json list" where
  "first_nine (JList xs) = Inr (take 9 xs)"
| "first_nine (JStr s) = Inr (map JStr (take 9 (code_points s)))"
| "first_nine _ = Inl TypeError"

definition format_discord_message_B :: "string \<Rightarrow> json \<Rightarrow> pydict \<Rightarrow> error + json" where
  "format_discord_message_B current_time games screenshots =
     (if \<not> truthy games then Inr (JObj [(''content'', JStr ''No upcoming games found!'')])
      else
        (case first_nine games of
           Inl e \<Rightarrow> Inl e
         | Inr gs \<Rightarrow>
        (case add_embeds screenshots [main_embed] gs of
           Inl e \<Rightarrow> Inl e
         | Inr embeds \<Rightarrow>
             (case embeds of
                [] \<Rightarrow> Inl IndexError
              | first # others \<Rightarrow>
                  (case set_footer current_time first of
                     Inl e \<Rightarrow> Inl e
                   | Inr first' \<Rightarrow> Inr (JObj [(''embeds'', JList (first' # others))]))))))"

section \<open>The world outside the scripts\<close>

text \<open>
  The configuration file \<^verbatim>\<open>games_discord_config.json\<close>, seen through what
  \<^verbatim>\<open>os.path.exists\<close>, \<^verbatim>\<open>open\<close> and \<^verbatim>\<open>json.load\<close> make of it:
  \<^item> \<open>Absent\<close>: there is no file;
  \<^item> \<open>Unreadable\<close>: it exists and cannot be opened for reading (a directory, a file
    without read permission): \<^verbatim>\<open>open\<close> raises OSError;
  \<^item> \<open>Undecodable\<close>: its bytes are not text in the encoding in use: reading raises
    UnicodeDecodeError;
  \<^item> \<open>Too_deep\<close>: its text is nested so deeply that \<^verbatim>\<open>json.load\<close> raises RecursionError;
  \<^item> \<open>Not_json\<close>: its text is not JSON: \<^verbatim>\<open>json.load\<close> raises JSONDecodeError;
  \<^item> \<open>Json v\<close>: its text is the JSON of the value \<open>v\<close>.

  Of the four exceptions, \<^verbatim>\<open>load_config\<close> catches \<^verbatim>\<open>json.JSONDecodeError\<close> only.
\<close>

datatype config_file = Absent | Unreadable | Undecodable | Too_deep | Not_json | Json json

text \<open>An HTTP request of the \<^verbatim>\<open>requests\<close> library, and what comes back.\<close>

datatype request =
    Get string "(string \<times> json) list"
  | Post json "(string \<times> string) list" json




text \<open>
  What a run changes: the configuration file, the lines the operator still has to type,
  the text printed so far (one entry per \<^verbatim>\<open>print\<close> or prompt), the requests sent so far.
\<close>

record world =
  config :: config_file
  stdin :: "string list"
  stdout :: "string list"
  sent :: "request list"

definition py_print :: "string \<Rightarrow> world \<Rightarrow> world" where
  "py_print line w = w\<lparr>stdout := stdout w @ [line]\<rparr>"

text \<open>\<^verbatim>\<open>input(prompt)\<close>: EOFError when there is nothing left to read.\<close>

definition py_input :: "string \<Rightarrow> world \<Rightarrow> (error + string) \<times> world" where
  "py_input prompt w =
     (case stdin w of
        [] \<Rightarrow> (Inl EOFError, py_print prompt w)
      | line # rest \<Rightarrow> (Inr line, (py_print prompt w)\<lparr>stdin := rest\<rparr>))"



section \<open>Configuration (both scripts)\<close>

text \<open>
  The part of \<^verbatim>\<open>load_config\<close> after the file has been found missing or corrupt. The two
  scripts differ in the literal \<open>defaults\<close> only.
\<close>

definition create_config :: "(string \<times> json) list \<Rightarrow> world \<Rightarrow> (error + json) \<times> world" where
  "create_config defaults w =
     (case py_input ''Enter your RAWG.io API key: '' w of
        (Inl e, w1) \<Rightarrow> (Inl e, w1)
      | (Inr key, w1) \<Rightarrow>
          (case py_input ''Enter your Discord webhook URL: '' w1 of
             (Inl e, w2) \<Rightarrow> (Inl e, w2)
           | (Inr hook, w2) \<Rightarrow>
               (let cfg = dict_set (dict_set defaults ''rawg_api_key'' (JStr key))
                            ''discord_webhook_url'' (JStr hook)
                in (Inr (JObj cfg), w2\<lparr>config := Json (JObj cfg)\<rparr>))))"

definition load_config_with :: "(string \<times> json) list \<Rightarrow> world \<Rightarrow> (error + json) \<times> world" where
  "load_config_with defaults w =
     (case config w of
        Json v \<Rightarrow> (Inr v, w)
      | Unreadable \<Rightarrow> (Inl OSError, w)
      | Undecodable \<Rightarrow> (Inl UnicodeDecodeError, w)
      | Too_deep \<Rightarrow> (Inl RecursionError, w)
      | Not_json \<Rightarrow>
          create_config defaults
            (py_print ''Error: games_discord_config.json is corrupted. Creating a new one.'' w)
      | Absent \<Rightarrow> create_config defaults w)"





section \<open>Catalog client and webhook publisher (both scripts)\<close>







fun py_subscript :: "json \<Rightarrow> string \<Rightarrow> error + json" where
  "py_subscript (JObj kvs) k = (case map_of kvs k of None \<Rightarrow> Inl KeyError | Some v \<Rightarrow> Inr v)"
| "py_subscript _ k = Inl TypeError"


section \<open>The runners\<close>





section \<open>Records in the shape the catalog sends\<close>

text \<open>
  The catalog sends the platforms of a game as a list of entries
  \<^verbatim>\<open>{"platform": {"id": ..., "name": "PC", ...}, ...}\<close>, and that is the shape both
  formatters read. A platform entry is a dictionary whose \<^verbatim>\<open>platform\<close>, when it has one
  that counts as true, is a dictionary whose \<^verbatim>\<open>name\<close>, when it has one, is a string. A
  bare platform name such as \<^verbatim>\<open>"PC"\<close> is not a platform entry.
\<close>

definition platform_entry :: "json \<Rightarrow> bool" where
  "platform_entry p =
     (case p of
        JObj kvs \<Rightarrow>
          (case map_of kvs ''platform'' of
             None \<Rightarrow> True
           | Some (JObj pk) \<Rightarrow>
               pk = [] \<or>
               (case map_of pk ''name'' of None \<Rightarrow> True | Some (JStr n) \<Rightarrow> True | Some _ \<Rightarrow> False)
           | Some c \<Rightarrow> \<not> truthy c)
      | _ \<Rightarrow> False)"

text \<open>
  A catalog record is a dictionary whose \<^verbatim>\<open>platforms\<close> is missing, counts as false
  (\<^verbatim>\<open>null\<close> or the empty list, for instance) or is a list of platform entries. Its
  other keys are free. A record that lists its platforms as name strings is a catalog
  record only when the list is empty.
\<close>

definition catalog_record :: "json \<Rightarrow> bool" where
  "catalog_record game =
     (case game of
        JObj kvs \<Rightarrow>
          (case map_of kvs ''platforms'' of
             None \<Rightarrow> True
           | Some (JList ps) \<Rightarrow> list_all platform_entry ps
           | Some pv \<Rightarrow> \<not> truthy pv)
      | _ \<Rightarrow> False)"

definition has_key :: "json \<Rightarrow> string \<Rightarrow> bool" where
  "has_key obj k = (case obj of JObj kvs \<Rightarrow> map_of kvs k \<noteq> None | _ \<Rightarrow> False)"

text \<open>Variant B looks the \<^verbatim>\<open>id\<close> of a record up in a dictionary, so it has to be hashable.\<close>

definition hashable_id :: "json \<Rightarrow> bool" where
  "hashable_id game = (case dict_get game ''id'' JNull of Inl e \<Rightarrow> False | Inr v \<Rightarrow> hashable v)"

section \<open>Failed requests\<close>


section \<open>Properties of the formatters\<close>

subsection \<open>Records that are accepted\<close>

lemma platform_names_strings:
  "list_all platform_entry ps \<Longrightarrow> \<exists>ns. platform_names ps = Inr (map JStr ns)"
proof (induction ps)
  case Nil
  show ?case by simp
next
  case (Cons p ps)
  then obtain ns where ns: "platform_names ps = Inr (map JStr ns)" by auto
  from Cons.prems have pe: "platform_entry p" by simp
  then obtain kvs where p: "p = JObj kvs" by (cases p) (auto simp: platform_entry_def)
  show ?case
  proof (cases "map_of kvs ''platform''")
    case None
    then show ?thesis using ns p by auto
  next
    case (Some c)
    show ?thesis
    proof (cases "truthy c")
      case False
      then show ?thesis using ns p Some by auto
    next
      case True
      with pe p Some obtain pk where c: "c = JObj pk"
        by (cases c) (auto simp: platform_entry_def)
      from pe p Some c True
      have "map_of pk ''name'' = None \<or> (\<exists>n. map_of pk ''name'' = Some (JStr n))"
        by (auto simp: platform_entry_def split: option.splits json.splits)
      then show ?thesis
      proof
        assume "map_of pk ''name'' = None"
        then have "platform_names (p # ps) = Inr (map JStr ([] # ns))"
          using ns p Some c True by simp
        then show ?thesis by blast
      next
        assume "\<exists>n. map_of pk ''name'' = Some (JStr n)"
        then obtain n where "map_of pk ''name'' = Some (JStr n)" ..
        then have "platform_names (p # ps) = Inr (map JStr (n # ns))"
          using ns p Some c True by simp
        then show ?thesis by blast
      qed
    qed
  qed
qed

lemma strings_of_map_JStr: "strings_of (map JStr ns) = Inr ns"
  by (induction ns) auto

lemma platforms_of_record:
  assumes "catalog_record game"
  shows "\<exists>s. platforms_of game = Inr s"
proof -
  from assms obtain kvs where g: "game = JObj kvs"
    by (cases game) (auto simp: catalog_record_def)
  define pv where "pv = (case map_of kvs ''platforms'' of None \<Rightarrow> JNull | Some v \<Rightarrow> v)"
  have "\<exists>ps. py_or pv (JList []) = JList ps \<and> list_all platform_entry ps"
    using assms g unfolding pv_def catalog_record_def py_or_def
    by (auto split: option.splits json.splits)
  then obtain ps where ps: "py_or pv (JList []) = JList ps" "list_all platform_entry ps"
    by blast
  from platform_names_strings [OF ps(2)]
  obtain ns where "platform_names ps = Inr (map JStr ns)" ..
  then show ?thesis
    using g ps(1) unfolding platforms_of_def pv_def
    by (simp add: py_join_def strings_of_map_JStr)
qed

lemma game_field_record:
  assumes "catalog_record game"
  shows "\<exists>field. game_field game = Inr field"
proof -
  from assms obtain kvs where g: "game = JObj kvs"
    by (cases game) (auto simp: catalog_record_def)
  from platforms_of_record [OF assms] obtain s where "platforms_of game = Inr s" ..
  then show ?thesis using g by (simp add: game_field_def)
qed

subsection \<open>The loop of Variant A\<close>

lemma add_fields_Inr:
  "add_fields acc games = Inr r \<longleftrightarrow>
     (\<exists>fs. r = acc @ fs \<and> list_all2 (\<lambda>game field. game_field game = Inr field) games fs)"
proof (induction games arbitrary: acc)
  case Nil
  show ?case by auto
next
  case (Cons g gs)
  show ?case
  proof (cases "game_field g")
    case (Inl e)
    then show ?thesis by (auto simp: list_all2_Cons1)
  next
    case (Inr f)
    then show ?thesis by (auto simp: Cons.IH list_all2_Cons1)
  qed
qed

lemma add_fields_records:
  "list_all catalog_record games \<Longrightarrow> \<exists>fs. add_fields acc games = Inr (acc @ fs)"
proof (induction games arbitrary: acc)
  case Nil
  show ?case by simp
next
  case (Cons g gs)
  then obtain f where f: "game_field g = Inr f" using game_field_record by auto
  from Cons.prems have "list_all catalog_record gs" by simp
  from Cons.IH [OF this, of "acc @ [f]"]
  obtain fs where "add_fields (acc @ [f]) gs = Inr ((acc @ [f]) @ fs)" ..
  then have "add_fields acc (g # gs) = Inr (acc @ (f # fs))" using f by simp
  then show ?case ..
qed

lemma game_field_TBA:
  assumes "game_field game = Inr field" and "\<not> has_key game ''released''"
  shows "\<exists>rest. dict_get field ''value'' JNull =
           Inr (JStr (calendar_A @ '' Release Date: **TBA**'' @ CHR 0x0A # rest))"
proof -
  from assms(1) obtain kvs where g: "game = JObj kvs"
    by (cases game) (auto simp: game_field_def)
  with assms(2) have "map_of kvs ''released'' = None" by (simp add: has_key_def)
  with assms(1) g show ?thesis
    by (auto simp: game_field_def py_str_def split: sum.splits)
qed

subsection \<open>No games\<close>

text \<open>
  C4. For the empty list of game records both formatters return exactly the plain-text
  payload \<^verbatim>\<open>{"content": "No upcoming games found!"}\<close>, Variant B for every screenshot
  mapping; the payload has no \<^verbatim>\<open>embeds\<close> key.
\<close>

theorem no_games_plain_text:
  "format_discord_message_A current_time (JList []) =
     Inr (JObj [(''content'', JStr ''No upcoming games found!'')])
   \<and> format_discord_message_B current_time (JList []) screenshots =
     Inr (JObj [(''content'', JStr ''No upcoming games found!'')])
   \<and> \<not> has_key (JObj [(''content'', JStr ''No upcoming games found!'')]) ''embeds''"
  by (simp add: format_discord_message_A_def format_discord_message_B_def has_key_def)

subsection \<open>Variant A\<close>

text \<open>
  C5, as the code has it. A record that lists its platforms as name strings is a game
  record of the data model, and Variant A makes no field of it: \<^verbatim>\<open>p.get("platform")\<close> on
  the string \<^verbatim>\<open>"PC"\<close> raises AttributeError, so a list of one such record gives no
  payload at all.
\<close>

theorem variant_A_name_string_platforms_raise:
  "format_discord_message_A ''2025-03-01 12:00:00''
     (JList
       [JObj [(''id'', JInt 1), (''name'', JStr ''Foo''),
              (''platforms'', JList [JStr ''PC'', JStr ''PlayStation 5''])]])
   = Inl AttributeError"
  by (simp add: format_discord_message_A_def game_field_def platforms_of_def py_or_def)

text \<open>
  C5, amended. For every non-empty list of \<open>N\<close> catalog records (game records whose
  \<^verbatim>\<open>platforms\<close> is missing, null or otherwise false, or a list of entries in the
  catalog's shape \<^verbatim>\<open>{"platform": {"name": ...}}\<close>), Variant A returns a payload with
  exactly one embed; its \<^verbatim>\<open>fields\<close> list has exactly \<open>N\<close> entries, the \<open>i\<close>-th being the
  field of the \<open>i\<close>-th record, and the value of a field shows the release date
  \<^verbatim>\<open>TBA\<close> whenever the record has no \<^verbatim>\<open>released\<close> key.
\<close>

theorem variant_A_one_embed_with_a_field_per_game:
  assumes "games \<noteq> []" and "list_all catalog_record games"
  shows "\<exists>payload embed fields.
           format_discord_message_A current_time (JList games) = Inr payload
         \<and> dict_get payload ''embeds'' JNull = Inr (JList [embed])
         \<and> dict_get embed ''fields'' JNull = Inr (JList fields)
         \<and> length fields = length games
         \<and> (\<forall>i < length games.
               game_field (games ! i) = Inr (fields ! i)
             \<and> (\<not> has_key (games ! i) ''released'' \<longrightarrow>
                 (\<exists>rest. dict_get (fields ! i) ''value'' JNull =
                    Inr (JStr (calendar_A @ '' Release Date: **TBA**'' @ CHR 0x0A # rest)))))"
proof -
  from add_fields_records [OF assms(2), of "[]"]
  obtain fields where a: "add_fields [] games = Inr fields" by auto
  then have l: "list_all2 (\<lambda>game field. game_field game = Inr field) games fields"
    by (simp add: add_fields_Inr)
  have len: "length fields = length games" using l by (simp add: list_all2_lengthD)
  have each: "\<forall>i < length games. game_field (games ! i) = Inr (fields ! i)"
    using l by (simp add: list_all2_conv_all_nth)
  have tba: "\<forall>i < length games. \<not> has_key (games ! i) ''released'' \<longrightarrow>
                 (\<exists>rest. dict_get (fields ! i) ''value'' JNull =
                    Inr (JStr (calendar_A @ '' Release Date: **TBA**'' @ CHR 0x0A # rest)))"
    using each game_field_TBA by blast
  define embed where "embed = JObj
               [(''title'', JStr (pad_A @ '' Upcoming Game Releases '' @ pad_A)),
                (''color'', JInt 0x7289DA),
                (''description'', JStr ''Here are the upcoming game releases:''),
                (''fields'', JList fields),
                (''footer'', JObj
                   [(''text'', JStr (''Data from RAWG.io '' @ bullet_A @ '' Generated on ''
                                      @ current_time))])]"
  have f: "format_discord_message_A current_time (JList games)
             = Inr (JObj [(''embeds'', JList [embed])])"
    using assms(1) a by (simp add: format_discord_message_A_def embed_def)
  have e: "dict_get (JObj [(''embeds'', JList [embed])]) ''embeds'' JNull = Inr (JList [embed])"
    by simp
  have fl: "dict_get embed ''fields'' JNull = Inr (JList fields)"
    by (simp add: embed_def)
  show ?thesis using f e fl len each tba by blast
qed

theorem variant_A_one_embed_with_a_field_per_game_witness:
  "[JObj [(''id'', JInt 1), (''name'', JStr ''Foo''), (''released'', JStr ''2025-03-01''),
          (''platforms'', JList [JObj [(''platform'', JObj [(''name'', JStr ''PC'')])],
                                 JObj [(''platform'', JObj [(''name'', JStr ''Xbox'')])]])],
    JObj [(''id'', JInt 2), (''name'', JStr ''Bar'')]] \<noteq> []
   \<and> list_all catalog_record
        [JObj [(''id'', JInt 1), (''name'', JStr ''Foo''), (''released'', JStr ''2025-03-01''),
               (''platforms'', JList [JObj [(''platform'', JObj [(''name'', JStr ''PC'')])],
                                      JObj [(''platform'', JObj [(''name'', JStr ''Xbox'')])]])],
         JObj [(''id'', JInt 2), (''name'', JStr ''Bar'')]]
   \<and> (\<exists>payload embed fields.
         format_discord_message_A ''2025-03-01 12:00:00''
           (JList
             [JObj [(''id'', JInt 1), (''name'', JStr ''Foo''), (''released'', JStr ''2025-03-01''),
                    (''platforms'', JList [JObj [(''platform'', JObj [(''name'', JStr ''PC'')])],
                                           JObj [(''platform'', JObj [(''name'', JStr ''Xbox'')])]])],
              JObj [(''id'', JInt 2), (''name'', JStr ''Bar'')]]) = Inr payload
       \<and> dict_get payload ''embeds'' JNull = Inr (JList [embed])
       \<and> dict_get embed ''fields'' JNull = Inr (JList fields)
       \<and> length fields = 2
       \<and> fields ! 0 =
           JObj [(''name'', JStr ''**Foo**''),
                 (''value'', JStr (calendar_A @ '' Release Date: **2025-03-01**'' @ [CHR 0x0A]
                                    @ pad_A @ '' Platforms: PC, Xbox''))]
       \<and> (\<exists>rest. dict_get (fields ! 1) ''value'' JNull =
             Inr (JStr (calendar_A @ '' Release Date: **TBA**'' @ CHR 0x0A # rest))))"
proof -
  let ?foo = "JObj [(''id'', JInt 1), (''name'', JStr ''Foo''), (''released'', JStr ''2025-03-01''),
          (''platforms'', JList [JObj [(''platform'', JObj [(''name'', JStr ''PC'')])],
                                 JObj [(''platform'', JObj [(''name'', JStr ''Xbox'')])]])]"
  let ?bar = "JObj [(''id'', JInt 2), (''name'', JStr ''Bar'')]"
  have h1: "[?foo, ?bar] \<noteq> []" by simp
  have h2: "list_all catalog_record [?foo, ?bar]"
    by (simp add: catalog_record_def platform_entry_def)
  have h3: "\<not> has_key ([?foo, ?bar] ! 1) ''released''" by (simp add: has_key_def)
  have foo: "game_field ?foo =
           Inr (JObj [(''name'', JStr ''**Foo**''),
                 (''value'', JStr (calendar_A @ '' Release Date: **2025-03-01**'' @ [CHR 0x0A]
                                    @ pad_A @ '' Platforms: PC, Xbox''))])"
    by (simp add: game_field_def platforms_of_def py_or_def py_join_def py_str_def)
  from variant_A_one_embed_with_a_field_per_game [OF h1 h2, of "''2025-03-01 12:00:00''"]
  obtain payload embed fields where
    r: "format_discord_message_A ''2025-03-01 12:00:00'' (JList [?foo, ?bar]) = Inr payload"
       "dict_get payload ''embeds'' JNull = Inr (JList [embed])"
       "dict_get embed ''fields'' JNull = Inr (JList fields)"
       "length fields = length [?foo, ?bar]"
       "\<forall>i < length [?foo, ?bar].
               game_field ([?foo, ?bar] ! i) = Inr (fields ! i)
             \<and> (\<not> has_key ([?foo, ?bar] ! i) ''released'' \<longrightarrow>
                 (\<exists>rest. dict_get (fields ! i) ''value'' JNull =
                    Inr (JStr (calendar_A @ '' Release Date: **TBA**'' @ CHR 0x0A # rest))))"
    by blast
  from r(4) have len: "length fields = 2" by simp
  have i0: "(0::nat) < length [?foo, ?bar]" and i1: "(1::nat) < length [?foo, ?bar]"
    by simp_all
  from r(5) [rule_format, OF i0]
  have "game_field ([?foo, ?bar] ! 0) = Inr (fields ! 0)" by blast
  with foo have f0: "fields ! 0 =
           JObj [(''name'', JStr ''**Foo**''),
                 (''value'', JStr (calendar_A @ '' Release Date: **2025-03-01**'' @ [CHR 0x0A]
                                    @ pad_A @ '' Platforms: PC, Xbox''))]"
    by simp
  from r(5) [rule_format, OF i1]
  have "\<not> has_key ([?foo, ?bar] ! 1) ''released'' \<longrightarrow>
                 (\<exists>rest. dict_get (fields ! 1) ''value'' JNull =
                    Inr (JStr (calendar_A @ '' Release Date: **TBA**'' @ CHR 0x0A # rest)))"
    by blast
  with h3 have f1: "\<exists>rest. dict_get (fields ! 1) ''value'' JNull =
             Inr (JStr (calendar_A @ '' Release Date: **TBA**'' @ CHR 0x0A # rest))"
    by blast
  from r(1-3) len f0 f1 h1 h2 show ?thesis by blast
qed

text \<open>
  C3, as the code has it. The mock record of the specification gives the platform as the
  bare string \<^verbatim>\<open>"PC"\<close>; the formatter calls \<^verbatim>\<open>p.get("platform")\<close> on every element of
  \<^verbatim>\<open>platforms\<close>, which a string does not have, so the call raises AttributeError and
  returns no embed.
\<close>

theorem variant_A_mock_records_raise:
  "format_discord_message_A ''2025-03-01 12:00:00''
     (JList
       [JObj [(''id'', JInt 1), (''name'', JStr ''Foo''), (''released'', JStr ''2025-03-01''),
              (''platforms'', JList [JStr ''PC''])],
        JObj [(''id'', JInt 2), (''name'', JStr ''Bar''), (''released'', JStr ''TBA''),
              (''platforms'', JNull)]])
   = Inl AttributeError"
  by (simp add: format_discord_message_A_def game_field_def platforms_of_def py_or_def)

text \<open>
  C3, amended. With the platform of the first record in the shape the catalog sends,
  \<^verbatim>\<open>{"platform": {"name": "PC"}}\<close>, Variant A returns one embed with exactly two fields:
  \<^verbatim>\<open>**Foo**\<close>, whose value shows the release date \<^verbatim>\<open>2025-03-01\<close> and the platform
  \<^verbatim>\<open>PC\<close>, and \<^verbatim>\<open>**Bar**\<close>, whose value shows the release date \<^verbatim>\<open>TBA\<close> and ends after
  that line.
\<close>

theorem variant_A_two_records:
  "format_discord_message_A current_time
     (JList
       [JObj [(''id'', JInt 1), (''name'', JStr ''Foo''), (''released'', JStr ''2025-03-01''),
              (''platforms'', JList [JObj [(''platform'', JObj [(''name'', JStr ''PC'')])]])],
        JObj [(''id'', JInt 2), (''name'', JStr ''Bar''), (''released'', JStr ''TBA''),
              (''platforms'', JNull)]])
   = Inr (JObj [(''embeds'', JList [JObj
       [(''title'', JStr (pad_A @ '' Upcoming Game Releases '' @ pad_A)),
        (''color'', JInt 0x7289DA),
        (''description'', JStr ''Here are the upcoming game releases:''),
        (''fields'', JList
           [JObj [(''name'', JStr ''**Foo**''),
                  (''value'', JStr (calendar_A @ '' Release Date: **2025-03-01**'' @ [CHR 0x0A]
                                     @ pad_A @ '' Platforms: PC''))],
            JObj [(''name'', JStr ''**Bar**''),
                  (''value'', JStr (calendar_A @ '' Release Date: **TBA**'' @ [CHR 0x0A]))]]),
        (''footer'', JObj
           [(''text'', JStr (''Data from RAWG.io '' @ bullet_A @ '' Generated on ''
                              @ current_time))])]])])"
  by (simp add: format_discord_message_A_def game_field_def platforms_of_def py_or_def
      py_join_def py_str_def)

subsection \<open>The loop of Variant B\<close>

lemma screenshot_for_hashable:
  "hashable k \<Longrightarrow> \<exists>shot. screenshot_for screenshots k = Inr shot"
  by (cases "pydict_lookup screenshots k") (simp_all add: screenshot_for_def)

lemma game_embed_record:
  assumes "catalog_record game" and "hashable_id game"
  shows "\<exists>embed. game_embed screenshots game = Inr embed"
proof -
  from assms(1) obtain kvs where g: "game = JObj kvs"
    by (cases game) (auto simp: catalog_record_def)
  from platforms_of_record [OF assms(1)] obtain s where s: "platforms_of game = Inr s" ..
  define gid where "gid = (case map_of kvs ''id'' of None \<Rightarrow> JNull | Some v \<Rightarrow> v)"
  from assms(2) g have "hashable gid" by (simp add: hashable_id_def gid_def)
  from screenshot_for_hashable [OF this]
  obtain shot where "screenshot_for screenshots gid = Inr shot" ..
  with s g show ?thesis by (simp add: game_embed_def gid_def)
qed

lemma add_embeds_Inr:
  "add_embeds screenshots acc games = Inr r \<longleftrightarrow>
     (\<exists>es. r = acc @ es
          \<and> list_all2 (\<lambda>game embed. game_embed screenshots game = Inr embed) games es)"
proof (induction games arbitrary: acc)
  case Nil
  show ?case by auto
next
  case (Cons g gs)
  show ?case
  proof (cases "game_embed screenshots g")
    case (Inl e)
    then show ?thesis by (auto simp: list_all2_Cons1)
  next
    case (Inr f)
    then show ?thesis by (auto simp: Cons.IH list_all2_Cons1)
  qed
qed

lemma add_embeds_records:
  "list_all catalog_record games \<Longrightarrow> list_all hashable_id games \<Longrightarrow>
     \<exists>es. add_embeds screenshots acc games = Inr (acc @ es)"
proof (induction games arbitrary: acc)
  case Nil
  show ?case by simp
next
  case (Cons g gs)
  from Cons.prems have "catalog_record g" "hashable_id g" by simp_all
  from game_embed_record [OF this, of screenshots]
  obtain f where f: "game_embed screenshots g = Inr f" ..
  from Cons.prems have "list_all catalog_record gs" "list_all hashable_id gs" by simp_all
  from Cons.IH [OF this, of "acc @ [f]"]
  obtain es where "add_embeds screenshots (acc @ [f]) gs = Inr ((acc @ [f]) @ es)" ..
  then have "add_embeds screenshots acc (g # gs) = Inr (acc @ (f # es))" using f by simp
  then show ?case ..
qed

lemma format_B_returns:
  assumes "games \<noteq> []"
    and "list_all catalog_record (take 9 games)" and "list_all hashable_id (take 9 games)"
  shows "\<exists>embeds.
           format_discord_message_B current_time (JList games) screenshots =
             Inr (JObj [(''embeds'', JList
               (JObj [(''title'', JStr (pad_B @ '' Upcoming Game Releases '' @ pad_B)),
                      (''color'', JInt 0x7289DA),
                      (''description'',
                       JStr ''Here are the upcoming game releases with screenshots:''),
                      (''footer'', JObj
                         [(''text'', JStr (''Data from RAWG.io '' @ bullet_B
                                            @ '' Generated on '' @ current_time))])]
                # embeds))])
         \<and> list_all2 (\<lambda>game embed. game_embed screenshots game = Inr embed)
              (take 9 games) embeds"
proof -
  from add_embeds_records [OF assms(2,3), of screenshots "[main_embed]"]
  obtain es where a: "add_embeds screenshots [main_embed] (take 9 games) = Inr ([main_embed] @ es)"
    ..
  then have l: "list_all2 (\<lambda>game embed. game_embed screenshots game = Inr embed)
                  (take 9 games) es"
    by (simp add: add_embeds_Inr)
  have "format_discord_message_B current_time (JList games) screenshots =
          Inr (JObj [(''embeds'', JList
               (JObj [(''title'', JStr (pad_B @ '' Upcoming Game Releases '' @ pad_B)),
                      (''color'', JInt 0x7289DA),
                      (''description'',
                       JStr ''Here are the upcoming game releases with screenshots:''),
                      (''footer'', JObj
                         [(''text'', JStr (''Data from RAWG.io '' @ bullet_B
                                            @ '' Generated on '' @ current_time))])]
                # es))])"
    using assms(1) a by (simp add: format_discord_message_B_def main_embed_def dict_set_def)
  with l show ?thesis by blast
qed

subsection \<open>Variant B\<close>

text \<open>
  C1, as the code has it. Ten game records that list their platforms as name strings, as
  the GameRecord of the data model does, give no payload: on the first record
  \<^verbatim>\<open>p.get("platform")\<close> is called on the string \<^verbatim>\<open>"PC"\<close> and raises AttributeError.
\<close>

theorem variant_B_ten_name_string_records_raise:
  "format_discord_message_B ''2025-03-01 12:00:00''
     (JList (map (\<lambda>k. JObj [(''id'', JInt k), (''name'', JStr ''Game''),
                             (''released'', JStr ''2025-03-01''),
                             (''platforms'', JList [JStr ''PC''])])
               [1, 2, 3, 4, 5, 6, 7, 8, 9, 10]))
     []
   = Inl AttributeError"
  by (simp add: format_discord_message_B_def game_embed_def platforms_of_def py_or_def)

text \<open>
  C1, amended. For every list of ten or more game records whose first nine are catalog
  records (\<^verbatim>\<open>platforms\<close> missing, null or otherwise false, or a list of entries in the
  catalog's shape \<^verbatim>\<open>{"platform": {"name": ...}}\<close>) with an \<^verbatim>\<open>id\<close> that can be hashed (an
  integer, or none), and for every screenshot mapping, Variant B returns a payload whose
  \<^verbatim>\<open>embeds\<close> list has exactly ten elements: the header embed, then the embeds of the
  first nine records in order. The records from the tenth on are not read: the payload
  is the one of the first nine records alone.
\<close>

theorem variant_B_ten_embeds:
  assumes "10 \<le> length games"
    and "list_all catalog_record (take 9 games)" and "list_all hashable_id (take 9 games)"
  shows "\<exists>embeds.
           format_discord_message_B current_time (JList games) screenshots =
             Inr (JObj [(''embeds'', JList
               (JObj [(''title'', JStr (pad_B @ '' Upcoming Game Releases '' @ pad_B)),
                      (''color'', JInt 0x7289DA),
                      (''description'',
                       JStr ''Here are the upcoming game releases with screenshots:''),
                      (''footer'', JObj
                         [(''text'', JStr (''Data from RAWG.io '' @ bullet_B
                                            @ '' Generated on '' @ current_time))])]
                # embeds))])
         \<and> length embeds = 9
         \<and> (\<forall>i < 9. game_embed screenshots (games ! i) = Inr (embeds ! i))
         \<and> format_discord_message_B current_time (JList games) screenshots =
             format_discord_message_B current_time (JList (take 9 games)) screenshots"
proof -
  from assms(1) have ne: "games \<noteq> []" by auto
  from format_B_returns [OF ne assms(2,3), of current_time screenshots]
  obtain embeds where
    f: "format_discord_message_B current_time (JList games) screenshots =
             Inr (JObj [(''embeds'', JList
               (JObj [(''title'', JStr (pad_B @ '' Upcoming Game Releases '' @ pad_B)),
                      (''color'', JInt 0x7289DA),
                      (''description'',
                       JStr ''Here are the upcoming game releases with screenshots:''),
                      (''footer'', JObj
                         [(''text'', JStr (''Data from RAWG.io '' @ bullet_B
                                            @ '' Generated on '' @ current_time))])]
                # embeds))])"
    and l: "list_all2 (\<lambda>game embed. game_embed screenshots game = Inr embed)
              (take 9 games) embeds"
    by blast
  from l have "length (take 9 games) = length embeds" by (rule list_all2_lengthD)
  with assms(1) have len: "length embeds = 9" by simp
  have each: "\<forall>i < 9. game_embed screenshots (games ! i) = Inr (embeds ! i)"
  proof (intro allI impI)
    fix i :: nat
    assume i: "i < 9"
    with assms(1) have "i < length (take 9 games)" by simp
    from list_all2_nthD [OF l this]
    have "game_embed screenshots (take 9 games ! i) = Inr (embeds ! i)" .
    with i show "game_embed screenshots (games ! i) = Inr (embeds ! i)" by simp
  qed
  have same: "format_discord_message_B current_time (JList games) screenshots =
             format_discord_message_B current_time (JList (take 9 games)) screenshots"
    using ne by (simp add: format_discord_message_B_def)
  from f len each same show ?thesis by blast
qed

theorem variant_B_ten_embeds_witness:
  "10 \<le> length (map (\<lambda>k. JObj [(''id'', JInt k), (''name'', JStr ''Game''),
                  (''platforms'', JList [JObj [(''platform'', JObj [(''name'', JStr ''PC'')])]])])
              [1, 2, 3, 4, 5, 6, 7, 8, 9, 10, 11])
   \<and> list_all catalog_record
        (take 9 (map (\<lambda>k. JObj [(''id'', JInt k), (''name'', JStr ''Game''),
                  (''platforms'', JList [JObj [(''platform'', JObj [(''name'', JStr ''PC'')])]])])
              [1, 2, 3, 4, 5, 6, 7, 8, 9, 10, 11]))
   \<and> list_all hashable_id
        (take 9 (map (\<lambda>k. JObj [(''id'', JInt k), (''name'', JStr ''Game''),
                  (''platforms'', JList [JObj [(''platform'', JObj [(''name'', JStr ''PC'')])]])])
              [1, 2, 3, 4, 5, 6, 7, 8, 9, 10, 11]))
   \<and> (\<exists>header embeds.
         format_discord_message_B ''2025-03-01 12:00:00''
           (JList (map (\<lambda>k. JObj [(''id'', JInt k), (''name'', JStr ''Game''),
                  (''platforms'', JList [JObj [(''platform'', JObj [(''name'', JStr ''PC'')])]])])
              [1, 2, 3, 4, 5, 6, 7, 8, 9, 10, 11]))
           [(JInt 3, JStr ''https://example.org/3.jpg'')]
           = Inr (JObj [(''embeds'', JList (header # embeds))])
       \<and> length (header # embeds) = 10)"
proof -
  let ?gs = "map (\<lambda>k. JObj [(''id'', JInt k), (''name'', JStr ''Game''),
                  (''platforms'', JList [JObj [(''platform'', JObj [(''name'', JStr ''PC'')])]])])
              [1, 2, 3, 4, 5, 6, 7, 8, 9, 10, 11]"
  have h1: "10 \<le> length ?gs" by simp
  have h2: "list_all catalog_record (take 9 ?gs)" by (simp add: catalog_record_def platform_entry_def)
  have h3: "list_all hashable_id (take 9 ?gs)" by (simp add: hashable_id_def)
  from variant_B_ten_embeds [OF h1 h2 h3, of "''2025-03-01 12:00:00''"
      "[(JInt 3, JStr ''https://example.org/3.jpg'')]"]
  have "\<exists>header embeds.
         format_discord_message_B ''2025-03-01 12:00:00'' (JList ?gs)
           [(JInt 3, JStr ''https://example.org/3.jpg'')]
           = Inr (JObj [(''embeds'', JList (header # embeds))])
       \<and> length (header # embeds) = 10"
    by auto
  with h1 h2 h3 show ?thesis by blast
qed

lemma game_embed_image:
  assumes "game_embed screenshots game = Inr ge"
    and "dict_get game ''id'' JNull = Inr game_id"
  shows "(\<forall>url. pydict_lookup screenshots game_id = Some url \<and> truthy url \<longrightarrow>
            py_subscript ge ''image'' = Inr (JObj [(''url'', url)])
          \<and> \<not> has_key ge ''footer'')
       \<and> (\<not> (\<exists>url. pydict_lookup screenshots game_id = Some url \<and> truthy url) \<longrightarrow>
            py_subscript ge ''footer'' =
              Inr (JObj [(''text'', JStr ''No screenshot available for this game'')])
          \<and> \<not> has_key ge ''image'')"
  using assms
  by (auto simp: game_embed_def screenshot_for_def has_key_def
           split: sum.splits option.splits if_splits)

text \<open>
  C9, as the code has it. A game record that lists its platforms as name strings gets
  neither an image nor a footer, whatever the screenshot mapping holds for its \<^verbatim>\<open>id\<close>:
  the formatter raises AttributeError on \<^verbatim>\<open>p.get("platform")\<close> before it makes the embed.
\<close>

theorem variant_B_name_string_record_has_no_embed:
  "format_discord_message_B ''2025-03-01 12:00:00''
     (JList [JObj [(''id'', JInt 1), (''name'', JStr ''Foo''),
                   (''released'', JStr ''2025-03-01''),
                   (''platforms'', JList [JStr ''PC''])]])
     [(JInt 1, JStr ''https://example.org/1.jpg'')]
   = Inl AttributeError"
  by (simp add: format_discord_message_B_def game_embed_def platforms_of_def py_or_def)

text \<open>
  C9, amended. For every record among the first nine of a list whose first nine records
  are catalog records (\<^verbatim>\<open>platforms\<close> missing, null or otherwise false, or a list of
  entries in the catalog's shape \<^verbatim>\<open>{"platform": {"name": ...}}\<close>) with an \<^verbatim>\<open>id\<close> that can
  be hashed, the embed of that record has an \<^verbatim>\<open>image\<close> block with the mapped URL (and no
  footer) exactly when the screenshot mapping has a URL, that is a value that counts as
  true, under the record's \<^verbatim>\<open>id\<close>; otherwise it has the footer
  \<^verbatim>\<open>No screenshot available for this game\<close> and no image.
\<close>

theorem variant_B_image_or_footer:
  assumes "list_all catalog_record (take 9 games)" and "list_all hashable_id (take 9 games)"
    and "i < length games" and "i < 9"
  shows "\<exists>header embeds game_id.
           format_discord_message_B current_time (JList games) screenshots =
             Inr (JObj [(''embeds'', JList (header # embeds))])
         \<and> length embeds = min 9 (length games)
         \<and> dict_get (games ! i) ''id'' JNull = Inr game_id
         \<and> (\<forall>url. pydict_lookup screenshots game_id = Some url \<and> truthy url \<longrightarrow>
               py_subscript (embeds ! i) ''image'' = Inr (JObj [(''url'', url)])
             \<and> \<not> has_key (embeds ! i) ''footer'')
         \<and> (\<not> (\<exists>url. pydict_lookup screenshots game_id = Some url \<and> truthy url) \<longrightarrow>
               py_subscript (embeds ! i) ''footer'' =
                 Inr (JObj [(''text'', JStr ''No screenshot available for this game'')])
             \<and> \<not> has_key (embeds ! i) ''image'')"
proof -
  from assms(3) have ne: "games \<noteq> []" by auto
  from format_B_returns [OF ne assms(1,2), of current_time screenshots]
  obtain header embeds where
    f: "format_discord_message_B current_time (JList games) screenshots =
          Inr (JObj [(''embeds'', JList (header # embeds))])"
    and l: "list_all2 (\<lambda>game embed. game_embed screenshots game = Inr embed)
              (take 9 games) embeds"
    by blast
  from l have "length (take 9 games) = length embeds" by (rule list_all2_lengthD)
  then have len: "length embeds = min 9 (length games)" by simp
  from assms(3,4) have i: "i < length (take 9 games)" by simp
  from list_all2_nthD [OF l i] assms(4)
  have e: "game_embed screenshots (games ! i) = Inr (embeds ! i)" by simp
  then obtain game_id where g: "dict_get (games ! i) ''id'' JNull = Inr game_id"
    by (auto simp: game_embed_def split: sum.splits)
  from game_embed_image [OF e g] f len g show ?thesis by blast
qed

theorem variant_B_image_or_footer_witness:
  "list_all catalog_record (take 9 [JObj [(''id'', JInt 3),
               (''platforms'', JList [JObj [(''platform'', JObj [(''name'', JStr ''PC'')])]])],
         JObj [(''id'', JInt 4)]])
   \<and> list_all hashable_id (take 9 [JObj [(''id'', JInt 3),
               (''platforms'', JList [JObj [(''platform'', JObj [(''name'', JStr ''PC'')])]])],
         JObj [(''id'', JInt 4)]])
   \<and> (\<exists>header e3 e4.
         format_discord_message_B ''2025-03-01 12:00:00''
           (JList [JObj [(''id'', JInt 3),
               (''platforms'', JList [JObj [(''platform'', JObj [(''name'', JStr ''PC'')])]])],
         JObj [(''id'', JInt 4)]])
           [(JInt 3, JStr ''https://example.org/3.jpg'')]
           = Inr (JObj [(''embeds'', JList [header, e3, e4])])
       \<and> py_subscript e3 ''image'' = Inr (JObj [(''url'', JStr ''https://example.org/3.jpg'')])
       \<and> \<not> has_key e3 ''footer''
       \<and> py_subscript e4 ''footer'' =
            Inr (JObj [(''text'', JStr ''No screenshot available for this game'')])
       \<and> \<not> has_key e4 ''image'')"
proof -
  let ?gs = "[JObj [(''id'', JInt 3),
               (''platforms'', JList [JObj [(''platform'', JObj [(''name'', JStr ''PC'')])]])],
         JObj [(''id'', JInt 4)]]"
  let ?shots = "[(JInt 3, JStr ''https://example.org/3.jpg'')]"
  have h1: "list_all catalog_record (take 9 ?gs)" by (simp add: catalog_record_def platform_entry_def)
  have h2: "list_all hashable_id (take 9 ?gs)" by (simp add: hashable_id_def)
  have l3: "pydict_lookup ?shots (JInt 3) = Some (JStr ''https://example.org/3.jpg'')"
    by (simp add: pydict_lookup_def)
  have l4: "pydict_lookup ?shots (JInt 4) = None"
    by (simp add: pydict_lookup_def)
  from variant_B_image_or_footer [OF h1 h2, of 0 "''2025-03-01 12:00:00''" ?shots]
  obtain header embeds where
    a: "format_discord_message_B ''2025-03-01 12:00:00'' (JList ?gs) ?shots =
          Inr (JObj [(''embeds'', JList (header # embeds))])"
       "length embeds = 2"
       "py_subscript (embeds ! 0) ''image'' = Inr (JObj [(''url'', JStr ''https://example.org/3.jpg'')])"
       "\<not> has_key (embeds ! 0) ''footer''"
    using l3 by auto
  from variant_B_image_or_footer [OF h1 h2, of 1 "''2025-03-01 12:00:00''" ?shots]
  obtain header' embeds' where
    b: "format_discord_message_B ''2025-03-01 12:00:00'' (JList ?gs) ?shots =
          Inr (JObj [(''embeds'', JList (header' # embeds'))])"
       "py_subscript (embeds' ! 1) ''footer'' =
            Inr (JObj [(''text'', JStr ''No screenshot available for this game'')])"
       "\<not> has_key (embeds' ! 1) ''image''"
    using l4 by auto
  from a(1) b(1) have same: "embeds' = embeds" by simp
  from a(2) obtain e3 e4 where es: "embeds = [e3, e4]"
    by (cases embeds; cases "tl embeds"; cases "tl (tl embeds)") auto
  from a b same es h1 h2 show ?thesis by auto
qed


subsection \<open>Records without platforms\<close>

lemma format_A_returns:
  assumes "games \<noteq> []" and "list_all catalog_record games"
  shows "\<exists>fields.
           format_discord_message_A current_time (JList games) =
             Inr (JObj [(''embeds'', JList [JObj
               [(''title'', JStr (pad_A @ '' Upcoming Game Releases '' @ pad_A)),
                (''color'', JInt 0x7289DA),
                (''description'', JStr ''Here are the upcoming game releases:''),
                (''fields'', JList fields),
                (''footer'', JObj
                   [(''text'', JStr (''Data from RAWG.io '' @ bullet_A @ '' Generated on ''
                                      @ current_time))])]])])
         \<and> list_all2 (\<lambda>game field. game_field game = Inr field) games fields"
proof -
  from add_fields_records [OF assms(2), of "[]"]
  obtain fields where a: "add_fields [] games = Inr fields" by auto
  then have l: "list_all2 (\<lambda>game field. game_field game = Inr field) games fields"
    by (simp add: add_fields_Inr)
  from assms(1) a l show ?thesis by (simp add: format_discord_message_A_def)
qed

lemma null_platforms_empty:
  "dict_get game ''platforms'' JNull = Inr JNull \<Longrightarrow> platforms_of game = Inr []"
  by (simp add: platforms_of_def py_or_def py_join_def)

lemma null_platforms_record:
  "dict_get game ''platforms'' JNull = Inr JNull \<Longrightarrow> catalog_record game"
  by (cases game) (auto simp: catalog_record_def split: option.splits)

lemma null_platforms_field:
  assumes "dict_get game ''platforms'' JNull = Inr JNull"
  shows "\<exists>name date. game_field game =
           Inr (JObj [(''name'', JStr (''**'' @ name @ ''**'')),
                      (''value'', JStr (calendar_A @ '' Release Date: **'' @ date @ ''**''
                                         @ [CHR 0x0A]))])"
proof -
  from assms obtain kvs where "game = JObj kvs" by (cases game) auto
  with null_platforms_empty [OF assms] show ?thesis by (simp add: game_field_def)
qed

lemma null_platforms_embed:
  assumes "dict_get game ''platforms'' JNull = Inr JNull" and "hashable_id game"
  shows "\<exists>title date extra. game_embed screenshots game =
           Inr (JObj [(''title'', title),
                      (''color'', JInt 0x3498DB),
                      (''fields'', JList
                         [JObj [(''name'', JStr ''Release Date''),
                                (''value'', JStr (calendar_B @ '' **'' @ date @ ''**'')),
                                (''inline'', JBool True)]]),
                      extra])"
proof -
  from assms(1) obtain kvs where g: "game = JObj kvs" by (cases game) auto
  define gid where "gid = (case map_of kvs ''id'' of None \<Rightarrow> JNull | Some v \<Rightarrow> v)"
  from assms(2) g have "hashable gid" by (simp add: hashable_id_def gid_def)
  from screenshot_for_hashable [OF this]
  obtain shot where "screenshot_for screenshots gid = Inr shot" ..
  with null_platforms_empty [OF assms(1)] g show ?thesis
    by (simp add: game_embed_def gid_def)
qed

text \<open>
  C6. A record whose \<^verbatim>\<open>platforms\<close> is \<^verbatim>\<open>null\<close> or missing is read as a record with the
  empty platforms list and is formatted without an exception: the field that Variant A
  makes of it ends after the release-date line, and the embed that Variant B makes of it
  (its \<^verbatim>\<open>id\<close> being hashable) has the release-date field and no other. In every list of
  game records the field, or the embed, at the position of such a record is of that
  form.
\<close>

theorem null_platforms_omitted:
  assumes "dict_get game ''platforms'' JNull = Inr JNull"
  shows "platforms_of game = Inr []
       \<and> (\<exists>name date. game_field game =
             Inr (JObj [(''name'', JStr (''**'' @ name @ ''**'')),
                        (''value'', JStr (calendar_A @ '' Release Date: **'' @ date @ ''**''
                                           @ [CHR 0x0A]))]))
       \<and> (hashable_id game \<longrightarrow>
            (\<exists>title date extra. game_embed screenshots game =
               Inr (JObj [(''title'', title),
                          (''color'', JInt 0x3498DB),
                          (''fields'', JList
                             [JObj [(''name'', JStr ''Release Date''),
                                    (''value'', JStr (calendar_B @ '' **'' @ date @ ''**'')),
                                    (''inline'', JBool True)]]),
                          extra])))
       \<and> (\<forall>games i. list_all catalog_record games \<and> i < length games \<and> games ! i = game \<longrightarrow>
            (\<exists>payload embed fields name date.
               format_discord_message_A current_time (JList games) = Inr payload
             \<and> dict_get payload ''embeds'' JNull = Inr (JList [embed])
             \<and> dict_get embed ''fields'' JNull = Inr (JList fields)
             \<and> length fields = length games
             \<and> fields ! i =
                 JObj [(''name'', JStr (''**'' @ name @ ''**'')),
                       (''value'', JStr (calendar_A @ '' Release Date: **'' @ date @ ''**''
                                          @ [CHR 0x0A]))]))
       \<and> (\<forall>games i. list_all catalog_record (take 9 games)
                    \<and> list_all hashable_id (take 9 games)
                    \<and> i < length games \<and> i < 9 \<and> games ! i = game \<longrightarrow>
            (\<exists>header embeds title date extra.
               format_discord_message_B current_time (JList games) screenshots =
                 Inr (JObj [(''embeds'', JList (header # embeds))])
             \<and> length embeds = min 9 (length games)
             \<and> embeds ! i =
                 JObj [(''title'', title),
                       (''color'', JInt 0x3498DB),
                       (''fields'', JList
                          [JObj [(''name'', JStr ''Release Date''),
                                 (''value'', JStr (calendar_B @ '' **'' @ date @ ''**'')),
                                 (''inline'', JBool True)]]),
                       extra]))"
proof (intro conjI allI impI)
  show "platforms_of game = Inr []" by (rule null_platforms_empty [OF assms])
next
  show "\<exists>name date. game_field game =
             Inr (JObj [(''name'', JStr (''**'' @ name @ ''**'')),
                        (''value'', JStr (calendar_A @ '' Release Date: **'' @ date @ ''**''
                                           @ [CHR 0x0A]))])"
    by (rule null_platforms_field [OF assms])
next
  assume "hashable_id game"
  then show "\<exists>title date extra. game_embed screenshots game =
               Inr (JObj [(''title'', title),
                          (''color'', JInt 0x3498DB),
                          (''fields'', JList
                             [JObj [(''name'', JStr ''Release Date''),
                                    (''value'', JStr (calendar_B @ '' **'' @ date @ ''**'')),
                                    (''inline'', JBool True)]]),
                          extra])"
    by (rule null_platforms_embed [OF assms])
next
  fix games :: "json list" and i :: nat
  assume h: "list_all catalog_record games \<and> i < length games \<and> games ! i = game"
  then have ne: "games \<noteq> []" by auto
  from h have rec: "list_all catalog_record games" by simp
  from format_A_returns [OF ne rec, of current_time]
  obtain fields where
    f: "format_discord_message_A current_time (JList games) =
             Inr (JObj [(''embeds'', JList [JObj
               [(''title'', JStr (pad_A @ '' Upcoming Game Releases '' @ pad_A)),
                (''color'', JInt 0x7289DA),
                (''description'', JStr ''Here are the upcoming game releases:''),
                (''fields'', JList fields),
                (''footer'', JObj
                   [(''text'', JStr (''Data from RAWG.io '' @ bullet_A @ '' Generated on ''
                                      @ current_time))])]])])"
    and l: "list_all2 (\<lambda>game field. game_field game = Inr field) games fields"
    by blast
  from l have len: "length fields = length games" by (simp add: list_all2_lengthD)
  from h have i: "i < length games" by simp
  from list_all2_nthD [OF l i] h have "game_field game = Inr (fields ! i)" by simp
  with null_platforms_field [OF assms]
  obtain name date where
    fi: "fields ! i =
           JObj [(''name'', JStr (''**'' @ name @ ''**'')),
                 (''value'', JStr (calendar_A @ '' Release Date: **'' @ date @ ''**''
                                    @ [CHR 0x0A]))]"
    by auto
  show "\<exists>payload embed fields name date.
               format_discord_message_A current_time (JList games) = Inr payload
             \<and> dict_get payload ''embeds'' JNull = Inr (JList [embed])
             \<and> dict_get embed ''fields'' JNull = Inr (JList fields)
             \<and> length fields = length games
             \<and> fields ! i =
                 JObj [(''name'', JStr (''**'' @ name @ ''**'')),
                       (''value'', JStr (calendar_A @ '' Release Date: **'' @ date @ ''**''
                                          @ [CHR 0x0A]))]"
    apply (rule exI [where x = "JObj [(''embeds'', JList [JObj
               [(''title'', JStr (pad_A @ '' Upcoming Game Releases '' @ pad_A)),
                (''color'', JInt 0x7289DA),
                (''description'', JStr ''Here are the upcoming game releases:''),
                (''fields'', JList fields),
                (''footer'', JObj
                   [(''text'', JStr (''Data from RAWG.io '' @ bullet_A @ '' Generated on ''
                                      @ current_time))])]])]"])
    apply (rule exI [where x = "JObj
               [(''title'', JStr (pad_A @ '' Upcoming Game Releases '' @ pad_A)),
                (''color'', JInt 0x7289DA),
                (''description'', JStr ''Here are the upcoming game releases:''),
                (''fields'', JList fields),
                (''footer'', JObj
                   [(''text'', JStr (''Data from RAWG.io '' @ bullet_A @ '' Generated on ''
                                      @ current_time))])]"])
    apply (rule exI [where x = fields])
    apply (rule exI [where x = name])
    apply (rule exI [where x = date])
    using f len fi apply simp
    done
next
  fix games :: "json list" and i :: nat
  assume h: "list_all catalog_record (take 9 games) \<and> list_all hashable_id (take 9 games)
               \<and> i < length games \<and> i < 9 \<and> games ! i = game"
  then have ne: "games \<noteq> []" by auto
  from h have rec: "list_all catalog_record (take 9 games)"
    and hs: "list_all hashable_id (take 9 games)" by simp_all
  from format_B_returns [OF ne rec hs, of current_time screenshots]
  obtain header embeds where
    f: "format_discord_message_B current_time (JList games) screenshots =
          Inr (JObj [(''embeds'', JList (header # embeds))])"
    and l: "list_all2 (\<lambda>game embed. game_embed screenshots game = Inr embed)
              (take 9 games) embeds"
    by blast
  from l have "length (take 9 games) = length embeds" by (rule list_all2_lengthD)
  then have len: "length embeds = min 9 (length games)" by simp
  from h have i: "i < length (take 9 games)" by simp
  from list_all2_nthD [OF l i] h
  have e: "game_embed screenshots game = Inr (embeds ! i)" by simp
  from hs i have "hashable_id (take 9 games ! i)" by (simp add: list_all_length)
  with h have "hashable_id game" by simp
  from null_platforms_embed [OF assms this, of screenshots] e
  obtain title date extra where
    "embeds ! i =
       JObj [(''title'', title),
             (''color'', JInt 0x3498DB),
             (''fields'', JList
                [JObj [(''name'', JStr ''Release Date''),
                       (''value'', JStr (calendar_B @ '' **'' @ date @ ''**'')),
                       (''inline'', JBool True)]]),
             extra]"
    by auto
  with f len show "\<exists>header embeds title date extra.
               format_discord_message_B current_time (JList games) screenshots =
                 Inr (JObj [(''embeds'', JList (header # embeds))])
             \<and> length embeds = min 9 (length games)
             \<and> embeds ! i =
                 JObj [(''title'', title),
                       (''color'', JInt 0x3498DB),
                       (''fields'', JList
                          [JObj [(''name'', JStr ''Release Date''),
                                 (''value'', JStr (calendar_B @ '' **'' @ date @ ''**'')),
                                 (''inline'', JBool True)]]),
                       extra]"
    by blast
qed

theorem null_platforms_omitted_witness:
  "dict_get (JObj [(''id'', JInt 2), (''name'', JStr ''Bar''), (''platforms'', JNull)])
     ''platforms'' JNull = Inr JNull
   \<and> hashable_id (JObj [(''id'', JInt 2), (''name'', JStr ''Bar''), (''platforms'', JNull)])
   \<and> list_all catalog_record
        [JObj [(''id'', JInt 1)],
         JObj [(''id'', JInt 2), (''name'', JStr ''Bar''), (''platforms'', JNull)]]
   \<and> list_all hashable_id
        (take 9 [JObj [(''id'', JInt 1)],
                 JObj [(''id'', JInt 2), (''name'', JStr ''Bar''), (''platforms'', JNull)]])
   \<and> platforms_of (JObj [(''id'', JInt 2), (''name'', JStr ''Bar''), (''platforms'', JNull)])
       = Inr []
   \<and> (\<exists>payload embed fields name date.
         format_discord_message_A ''2025-03-01 12:00:00''
           (JList [JObj [(''id'', JInt 1)],
                   JObj [(''id'', JInt 2), (''name'', JStr ''Bar''), (''platforms'', JNull)]])
           = Inr payload
       \<and> dict_get payload ''embeds'' JNull = Inr (JList [embed])
       \<and> dict_get embed ''fields'' JNull = Inr (JList fields)
       \<and> fields ! 1 =
           JObj [(''name'', JStr (''**'' @ name @ ''**'')),
                 (''value'', JStr (calendar_A @ '' Release Date: **'' @ date @ ''**''
                                    @ [CHR 0x0A]))])
   \<and> (\<exists>header embeds title date extra.
         format_discord_message_B ''2025-03-01 12:00:00''
           (JList [JObj [(''id'', JInt 1)],
                   JObj [(''id'', JInt 2), (''name'', JStr ''Bar''), (''platforms'', JNull)]])
           [] = Inr (JObj [(''embeds'', JList (header # embeds))])
       \<and> embeds ! 1 =
           JObj [(''title'', title),
                 (''color'', JInt 0x3498DB),
                 (''fields'', JList
                    [JObj [(''name'', JStr ''Release Date''),
                           (''value'', JStr (calendar_B @ '' **'' @ date @ ''**'')),
                           (''inline'', JBool True)]]),
                 extra])"
proof -
  let ?bar = "JObj [(''id'', JInt 2), (''name'', JStr ''Bar''), (''platforms'', JNull)]"
  let ?gs = "[JObj [(''id'', JInt 1)], ?bar]"
  let ?t = "''2025-03-01 12:00:00''"
  have h1: "dict_get ?bar ''platforms'' JNull = Inr JNull" by simp
  have h2: "hashable_id ?bar" by (simp add: hashable_id_def)
  have h3: "list_all catalog_record ?gs" by (simp add: catalog_record_def)
  have h4: "list_all hashable_id (take 9 ?gs)" by (simp add: hashable_id_def)
  have h5: "(1::nat) < length ?gs \<and> ?gs ! 1 = ?bar" by simp
  have h6: "list_all catalog_record (take 9 ?gs)" using h3 by simp
  note t = null_platforms_omitted [OF h1, of "[]" ?t]
  from t have c1: "platforms_of ?bar = Inr []" by blast
  from t have "\<forall>games i. list_all catalog_record games \<and> i < length games \<and> games ! i = ?bar \<longrightarrow>
            (\<exists>payload embed fields name date.
               format_discord_message_A ?t (JList games) = Inr payload
             \<and> dict_get payload ''embeds'' JNull = Inr (JList [embed])
             \<and> dict_get embed ''fields'' JNull = Inr (JList fields)
             \<and> length fields = length games
             \<and> fields ! i =
                 JObj [(''name'', JStr (''**'' @ name @ ''**'')),
                       (''value'', JStr (calendar_A @ '' Release Date: **'' @ date @ ''**''
                                          @ [CHR 0x0A]))])"
    by blast
  from this [rule_format, of ?gs 1] h3 h5
  have c2: "\<exists>payload embed fields name date.
         format_discord_message_A ?t (JList ?gs) = Inr payload
       \<and> dict_get payload ''embeds'' JNull = Inr (JList [embed])
       \<and> dict_get embed ''fields'' JNull = Inr (JList fields)
       \<and> fields ! 1 =
           JObj [(''name'', JStr (''**'' @ name @ ''**'')),
                 (''value'', JStr (calendar_A @ '' Release Date: **'' @ date @ ''**''
                                    @ [CHR 0x0A]))]"
    by blast
  from t have "\<forall>games i. list_all catalog_record (take 9 games)
                    \<and> list_all hashable_id (take 9 games)
                    \<and> i < length games \<and> i < 9 \<and> games ! i = ?bar \<longrightarrow>
            (\<exists>header embeds title date extra.
               format_discord_message_B ?t (JList games) [] =
                 Inr (JObj [(''embeds'', JList (header # embeds))])
             \<and> length embeds = min 9 (length games)
             \<and> embeds ! i =
                 JObj [(''title'', title),
                       (''color'', JInt 0x3498DB),
                       (''fields'', JList
                          [JObj [(''name'', JStr ''Release Date''),
                                 (''value'', JStr (calendar_B @ '' **'' @ date @ ''**'')),
                                 (''inline'', JBool True)]]),
                       extra])"
    by blast
  from this [rule_format, of ?gs 1] h4 h5 h6
  have c3: "\<exists>header embeds title date extra.
         format_discord_message_B ?t (JList ?gs) [] =
           Inr (JObj [(''embeds'', JList (header # embeds))])
       \<and> embeds ! 1 =
           JObj [(''title'', title),
                 (''color'', JInt 0x3498DB),
                 (''fields'', JList
                    [JObj [(''name'', JStr ''Release Date''),
                           (''value'', JStr (calendar_B @ '' **'' @ date @ ''**'')),
                           (''inline'', JBool True)]]),
                 extra]"
    by (simp del: take_Cons_numeral) blast
  from h1 h2 h3 h4 c1 c2 c3 show ?thesis by blast
qed

subsection \<open>The formatters raise on every other record\<close>

text \<open>
  The catalog records are exactly the records of which Variant A makes a field; Variant B
  makes an embed of exactly those among them whose \<^verbatim>\<open>id\<close> is hashable. On every other
  record the loop body raises.
\<close>

lemma strings_of_Inr: "strings_of vs = Inr ss \<Longrightarrow> vs = map JStr ss"
proof (induction vs arbitrary: ss)
  case Nil
  then show ?case by simp
next
  case (Cons v vs)
  then show ?case by (cases v) (auto split: sum.splits)
qed

lemma platform_names_entries:
  "platform_names ps = Inr (map JStr ns) \<Longrightarrow> list_all platform_entry ps"
proof (induction ps arbitrary: ns)
  case Nil
  show ?case by simp
next
  case (Cons p ps)
  from Cons.prems obtain kvs where p: "p = JObj kvs" by (cases p) auto
  show ?case
  proof (cases "map_of kvs ''platform''")
    case None
    with Cons p show ?thesis by (auto simp: platform_entry_def)
  next
    case (Some c)
    show ?thesis
    proof (cases "truthy c")
      case False
      with Cons p Some show ?thesis
        by (cases c) (auto simp: platform_entry_def)
    next
      case True
      with Cons.prems p Some obtain pk where c: "c = JObj pk" by (cases c) auto
      from Cons.prems p Some True c obtain n ns' where
        n: "(case map_of pk ''name'' of None \<Rightarrow> JStr [] | Some v \<Rightarrow> v) = JStr n"
        and r: "platform_names ps = Inr (map JStr ns')"
        by (cases ns) (auto split: sum.splits)
      from Cons.IH [OF r] have "list_all platform_entry ps" .
      moreover from n have "platform_entry p"
        unfolding p platform_entry_def using Some c
        by (auto split: option.splits json.splits)
      ultimately show ?thesis by simp
    qed
  qed
qed

lemma platforms_of_Inr_record:
  assumes "platforms_of game = Inr s"
  shows "catalog_record game"
proof -
  from assms obtain kvs where g: "game = JObj kvs"
    by (cases game) (auto simp: platforms_of_def)
  define pv where "pv = (case map_of kvs ''platforms'' of None \<Rightarrow> JNull | Some v \<Rightarrow> v)"
  from assms g obtain ps ns where
    it: "py_iter (py_or pv (JList [])) = Inr ps" and pn: "platform_names ps = Inr ns"
    and j: "py_join '', '' ns = Inr s"
    by (auto simp: platforms_of_def pv_def split: sum.splits)
  from j obtain ss where "strings_of ns = Inr ss" by (auto simp: py_join_def split: sum.splits)
  from strings_of_Inr [OF this] pn have "platform_names ps = Inr (map JStr ss)" by simp
  from platform_names_entries [OF this] have pe: "list_all platform_entry ps" .
  show ?thesis
  proof (cases "truthy pv")
    case False
    then show ?thesis using g unfolding catalog_record_def pv_def
      by (auto split: option.splits json.splits)
  next
    case True
    with it have i: "py_iter pv = Inr ps" by (simp add: py_or_def)
    have "\<exists>xs. pv = JList xs"
    proof (cases pv)
      case (JStr x)
      with True i pe show ?thesis 
        by (cases x) (auto simp: platform_entry_def)
    next
      case (JObj x)
      with True i pe show ?thesis
        by (cases x) (auto simp: platform_entry_def)
    qed (use i in auto)
    then obtain xs where "pv = JList xs" ..
    with i pe show ?thesis using g unfolding catalog_record_def pv_def
      by (auto split: option.splits)
  qed
qed

lemma game_field_returns_iff:
  "(\<exists>field. game_field game = Inr field) \<longleftrightarrow> catalog_record game"
proof
  assume "\<exists>field. game_field game = Inr field"
  then obtain s where "platforms_of game = Inr s"
    by (auto simp: game_field_def split: sum.splits)
  then show "catalog_record game" by (rule platforms_of_Inr_record)
next
  assume "catalog_record game"
  then show "\<exists>field. game_field game = Inr field" by (rule game_field_record)
qed

lemma game_embed_returns_iff:
  "(\<exists>ge. game_embed screenshots game = Inr ge) \<longleftrightarrow> catalog_record game \<and> hashable_id game"
proof
  assume "\<exists>ge. game_embed screenshots game = Inr ge"
  then obtain ge where ge: "game_embed screenshots game = Inr ge" ..
  then obtain s where "platforms_of game = Inr s"
    by (auto simp: game_embed_def split: sum.splits)
  then have "catalog_record game" by (rule platforms_of_Inr_record)
  moreover from ge have "hashable_id game"
    by (auto simp: game_embed_def hashable_id_def screenshot_for_def split: sum.splits if_splits)
  ultimately show "catalog_record game \<and> hashable_id game" ..
next
  assume "catalog_record game \<and> hashable_id game"
  then show "\<exists>ge. game_embed screenshots game = Inr ge"
    using game_embed_record by blast
qed

section \<open>Properties of the configuration store\<close>





text \<open>
  What \<^verbatim>\<open>load_config\<close> does not catch comes out of it, and nothing is printed or asked.
\<close>

lemma load_config_uncaught:
  "config w = Unreadable \<Longrightarrow> load_config_with defaults w = (Inl OSError, w)"
  "config w = Undecodable \<Longrightarrow> load_config_with defaults w = (Inl UnicodeDecodeError, w)"
  "config w = Too_deep \<Longrightarrow> load_config_with defaults w = (Inl RecursionError, w)"
  by (simp_all add: load_config_with_def)



section \<open>Properties of the catalog client and the publisher\<close>













end
